theory Spec2Isabelle
  imports Complex_Main "HOL-Library.Multiset"
begin

section \<open>Triage scoring (backend/src/utils/triage.ts)\<close>

text \<open>
  The vitals are JavaScript numbers; they are modelled as reals (the source only compares
  them with constants and, for blood pressure, subtracts a constant and takes the absolute
  value). The score is a sum of integer point constants, so \<open>Math.round\<close> at the end of
  \<open>calculateTriageScore\<close> is the identity and the score is an \<open>int\<close>. Symptoms are
  ASCII strings.
\<close>

record TriageInput =
  temperature :: real
  heartRate :: real
  bloodPressureSystolic :: real
  bloodPressureDiastolic :: real
  painLevel :: real
  symptoms :: string

text \<open>The string union \<open>'high' | 'medium' | 'low'\<close>, used for triage levels and queue priorities.\<close>

datatype priority_level = High | Medium | Low

record TriageResult =
  score :: int
  level :: priority_level
  factors :: "string list"

text \<open>\<open>String.prototype.toLowerCase\<close> on ASCII, and \<open>String.prototype.includes\<close>.\<close>

definition lower_char :: "char \<Rightarrow> char" where
  "lower_char c =
     (let n = (of_char c :: nat) in if 65 \<le> n \<and> n \<le> 90 then char_of (n + 32) else c)"

definition toLowerCase :: "string \<Rightarrow> string" where
  "toLowerCase s = map lower_char s"

fun startsWith :: "string \<Rightarrow> string \<Rightarrow> bool" where
  "startsWith s [] = True"
| "startsWith [] (k # ks) = False"
| "startsWith (c # cs) (k # ks) = (c = k \<and> startsWith cs ks)"

fun str_includes :: "string \<Rightarrow> string \<Rightarrow> bool" where
  "str_includes [] k = startsWith [] k"
| "str_includes (c # cs) k = (startsWith (c # cs) k \<or> str_includes cs k)"

text \<open>The keyword tables of \<open>TRIAGE_RULES.symptoms\<close>.\<close>

definition critical_keywords :: "string list" where
  "critical_keywords =
     [''chest pain'', ''difficulty breathing'', ''severe bleeding'', ''unconscious'',
      ''stroke'', ''heart attack'']"

definition serious_keywords :: "string list" where
  "serious_keywords =
     [''broken bone'', ''severe injury'', ''poisoning'', ''shock'', ''seizure'',
      ''allergic reaction'']"

text \<open>
  The five rule blocks of \<open>calculateTriageScore\<close>, each as the points it adds and the
  factor strings it pushes (the interpolated numbers are left out of the factor text).
\<close>

definition temperature_points :: "real \<Rightarrow> int" where
  "temperature_points t =
     (if t \<ge> 103 \<or> t \<le> 95 then 30
      else if t \<ge> 101.5 \<or> t \<le> 96 then 20
      else if t \<ge> 100 \<or> t \<le> 97 then 10
      else 0)"

definition heartRate_points :: "real \<Rightarrow> int" where
  "heartRate_points h =
     (if h \<ge> 120 \<or> h \<le> 50 then 25
      else if h \<ge> 110 \<or> h \<le> 55 then 15
      else if h \<ge> 100 \<or> h \<le> 60 then 5
      else 0)"

definition bloodPressure_points :: "real \<Rightarrow> real \<Rightarrow> int" where
  "bloodPressure_points sys dia =
     (let systolicDelta = \<bar>sys - 120\<bar>; diastolicDelta = \<bar>dia - 80\<bar> in
      if systolicDelta \<ge> 40 \<or> diastolicDelta \<ge> 30 then 40
      else if systolicDelta \<ge> 25 \<or> diastolicDelta \<ge> 20 then 25
      else if systolicDelta \<ge> 10 \<or> diastolicDelta \<ge> 10 then 10
      else 0)"

definition pain_points :: "real \<Rightarrow> int" where
  "pain_points p =
     (if p \<ge> 8 then 20
      else if p \<ge> 5 then 10
      else if p \<ge> 1 then 3
      else 0)"

definition symptom_points :: "string \<Rightarrow> int" where
  "symptom_points s =
     (let lowerSymptoms = toLowerCase s;
          hasCriticalSymptom =
            list_ex (\<lambda>keyword. str_includes lowerSymptoms (toLowerCase keyword)) critical_keywords
      in if hasCriticalSymptom then 40
         else
           (let hasSeriousSymptom =
                  list_ex (\<lambda>keyword. str_includes lowerSymptoms (toLowerCase keyword))
                    serious_keywords
            in if hasSeriousSymptom then 25 else 0))"

definition temperature_factor :: "real \<Rightarrow> string list" where
  "temperature_factor t =
     (if t \<ge> 103 \<or> t \<le> 95 then [''Critical temperature'']
      else if t \<ge> 101.5 \<or> t \<le> 96 then [''Elevated temperature'']
      else if t \<ge> 100 \<or> t \<le> 97 then [''Mild temperature abnormality'']
      else [])"

definition heartRate_factor :: "real \<Rightarrow> string list" where
  "heartRate_factor h =
     (if h \<ge> 120 \<or> h \<le> 50 then [''Critical heart rate'']
      else if h \<ge> 110 \<or> h \<le> 55 then [''Elevated heart rate'']
      else if h \<ge> 100 \<or> h \<le> 60 then [''Mild heart rate abnormality'']
      else [])"

definition bloodPressure_factor :: "real \<Rightarrow> real \<Rightarrow> string list" where
  "bloodPressure_factor sys dia =
     (let systolicDelta = \<bar>sys - 120\<bar>; diastolicDelta = \<bar>dia - 80\<bar> in
      if systolicDelta \<ge> 40 \<or> diastolicDelta \<ge> 30 then [''Critical blood pressure'']
      else if systolicDelta \<ge> 25 \<or> diastolicDelta \<ge> 20 then [''Elevated blood pressure'']
      else if systolicDelta \<ge> 10 \<or> diastolicDelta \<ge> 10
        then [''Mild blood pressure abnormality'']
      else [])"

definition pain_factor :: "real \<Rightarrow> string list" where
  "pain_factor p =
     (if p \<ge> 8 then [''Severe pain level'']
      else if p \<ge> 5 then [''Moderate pain level'']
      else if p \<ge> 1 then [''Mild pain level'']
      else [])"

definition symptom_factor :: "string \<Rightarrow> string list" where
  "symptom_factor s =
     (if symptom_points s = 40 then [''Critical symptoms detected'']
      else if symptom_points s = 25 then [''Serious symptoms detected'']
      else [])"

definition calculateTriageScore :: "TriageInput \<Rightarrow> TriageResult" where
  "calculateTriageScore input =
     (let sc = temperature_points (temperature input)
             + heartRate_points (heartRate input)
             + bloodPressure_points (bloodPressureSystolic input) (bloodPressureDiastolic input)
             + pain_points (painLevel input)
             + symptom_points (symptoms input)
      in \<lparr> score = sc,
           level = (if sc \<ge> 60 then High else if sc \<ge> 30 then Medium else Low),
           factors = temperature_factor (temperature input)
                   @ heartRate_factor (heartRate input)
                   @ bloodPressure_factor (bloodPressureSystolic input)
                       (bloodPressureDiastolic input)
                   @ pain_factor (painLevel input)
                   @ symptom_factor (symptoms input) \<rparr>)"

text \<open>
  Deviation of a vital from its normal value or range, as a magnitude: distance from
  98.6 for temperature, distance to the interval 60..100 for heart rate, distance from
  120 and 80 for blood pressure, distance from 0 for pain.
\<close>

definition temperature_deviation :: "real \<Rightarrow> real" where
  "temperature_deviation t = \<bar>t - 98.6\<bar>"

definition heartRate_deviation :: "real \<Rightarrow> real" where
  "heartRate_deviation h = (if h < 60 then 60 - h else if 100 < h then h - 100 else 0)"

definition systolic_deviation :: "real \<Rightarrow> real" where
  "systolic_deviation s = \<bar>s - 120\<bar>"

definition diastolic_deviation :: "real \<Rightarrow> real" where
  "diastolic_deviation d = \<bar>d - 80\<bar>"

definition pain_deviation :: "real \<Rightarrow> real" where
  "pain_deviation p = \<bar>p\<bar>"

text \<open>Two readings lie on the same side of normal (neither crosses over to the other side).\<close>

definition temperature_same_side :: "real \<Rightarrow> real \<Rightarrow> bool" where
  "temperature_same_side t t' = ((98.6 \<le> t \<and> 98.6 \<le> t') \<or> (t \<le> 98.6 \<and> t' \<le> 98.6))"

definition heartRate_same_side :: "real \<Rightarrow> real \<Rightarrow> bool" where
  "heartRate_same_side h h' = ((60 \<le> h \<and> 60 \<le> h') \<or> (h \<le> 100 \<and> h' \<le> 100))"

definition pain_same_side :: "real \<Rightarrow> real \<Rightarrow> bool" where
  "pain_same_side p p' = ((0 \<le> p \<and> 0 \<le> p') \<or> (p \<le> 0 \<and> p' \<le> 0))"

text \<open>
  \<open>b\<close> differs from \<open>a\<close> in one vital only, whose deviation from normal has increased
  without crossing to the other side of normal (blood pressure enters the score through
  the absolute deltas, so it has no side).
\<close>

definition single_vital_worsened :: "TriageInput \<Rightarrow> TriageInput \<Rightarrow> bool" where
  "single_vital_worsened a b =
     ((b = a\<lparr>temperature := temperature b\<rparr>
         \<and> temperature_same_side (temperature a) (temperature b)
         \<and> temperature_deviation (temperature a) < temperature_deviation (temperature b))
      \<or> (b = a\<lparr>heartRate := heartRate b\<rparr>
         \<and> heartRate_same_side (heartRate a) (heartRate b)
         \<and> heartRate_deviation (heartRate a) < heartRate_deviation (heartRate b))
      \<or> (b = a\<lparr>bloodPressureSystolic := bloodPressureSystolic b\<rparr>
         \<and> systolic_deviation (bloodPressureSystolic a)
             < systolic_deviation (bloodPressureSystolic b))
      \<or> (b = a\<lparr>bloodPressureDiastolic := bloodPressureDiastolic b\<rparr>
         \<and> diastolic_deviation (bloodPressureDiastolic a)
             < diastolic_deviation (bloodPressureDiastolic b))
      \<or> (b = a\<lparr>painLevel := painLevel b\<rparr>
         \<and> pain_same_side (painLevel a) (painLevel b)
         \<and> pain_deviation (painLevel a) < pain_deviation (painLevel b)))"

text \<open>The normal vitals of the test suite, as a base for examples.\<close>

definition normal_input :: TriageInput where
  "normal_input =
     \<lparr>temperature = 98.6, heartRate = 72, bloodPressureSystolic = 120,
      bloodPressureDiastolic = 80, painLevel = 0, symptoms = ''routine check-up''\<rparr>"


section \<open>Appointments (backend/src/models/Appointment.ts)\<close>

text \<open>
  A \<open>Date\<close> is its number of milliseconds since the epoch, counted in the server's local
  time (a fixed offset to UTC); object ids are natural numbers; the collection is the list
  of its documents in natural order. Only the fields that the conflict query reads are
  kept.
\<close>

type_synonym date = int
type_synonym object_id = nat

datatype appointment_status =
  AScheduled | AConfirmed | ACheckedIn | AInProgress | ACompleted | ACancelled | ANoShow

record Appointment =
  a_id :: object_id
  a_patient :: object_id
  a_doctor :: object_id
  scheduledTime :: date
  duration :: int
  a_status :: appointment_status

text \<open>The \<open>$in\<close> list of the conflict query.\<close>

definition active_status :: "appointment_status \<Rightarrow> bool" where
  "active_status st = (st \<in> set [AScheduled, AConfirmed, ACheckedIn, AInProgress])"

text \<open>
  The query document of \<open>findConflictingAppointments\<close> as a predicate on one stored
  appointment: the doctor matches, the status is active, and either the stored start lies
  in \<open>[start, end)\<close> or the stored end lies strictly between \<open>start\<close> and \<open>end\<close>.
\<close>

definition conflict_query :: "object_id \<Rightarrow> date \<Rightarrow> int \<Rightarrow> Appointment \<Rightarrow> bool" where
  "conflict_query doctorId start dur a =
     (let end = start + dur * 60000 in
      a_doctor a = doctorId
      \<and> active_status (a_status a)
      \<and> ((scheduledTime a \<ge> start \<and> scheduledTime a < end)
         \<or> (scheduledTime a + duration a * 60000 < end
            \<and> scheduledTime a + duration a * 60000 > start)))"

text \<open>
  The static method has three parameters. The service calls it with a fourth argument
  (the id to exclude); JavaScript drops an argument that has no parameter.
\<close>

definition findConflictingAppointments ::
  "Appointment list \<Rightarrow> object_id \<Rightarrow> date \<Rightarrow> int \<Rightarrow> Appointment list" where
  "findConflictingAppointments appts doctorId start dur =
     filter (conflict_query doctorId start dur) appts"

text \<open>
  The overlap test in the words of the specification: \<open>[s1, s1+d1)\<close> and \<open>[s2, s2+d2)\<close>
  overlap iff \<open>s1 < s2+d2\<close> and \<open>s2 < s1+d1\<close> (durations in minutes).
\<close>

definition spec_overlap :: "date \<Rightarrow> int \<Rightarrow> date \<Rightarrow> int \<Rightarrow> bool" where
  "spec_overlap s1 d1 s2 d2 = (s1 < s2 + d2 * 60000 \<and> s2 < s1 + d1 * 60000)"

definition spec_conflicts ::
  "Appointment list \<Rightarrow> object_id \<Rightarrow> date \<Rightarrow> int \<Rightarrow> Appointment list" where
  "spec_conflicts appts doctorId start dur =
     filter (\<lambda>a. a_doctor a = doctorId \<and> active_status (a_status a)
                 \<and> spec_overlap start dur (scheduledTime a) (duration a)) appts"

section \<open>Appointment service (backend/src/services/appointment.service.ts)\<close>

record AvailabilityCheck =
  available :: bool
  conflicts :: "Appointment list"
  suggestedTimes :: "date list"

text \<open>
  The candidate slot of \<open>findNextAvailableSlots\<close>: a copy of the base time moved by
  \<open>dayOffset\<close> days (\<open>setDate\<close>) and set to \<open>hour:minute:00.000\<close> (\<open>setHours\<close>). With a
  fixed offset to UTC a day has 86400000 milliseconds, and local midnight is the date
  rounded down to a multiple of it.
\<close>

definition slotTime :: "date \<Rightarrow> nat \<Rightarrow> nat \<Rightarrow> nat \<Rightarrow> date" where
  "slotTime baseTime dayOffset hour minute =
     (baseTime - baseTime mod 86400000) + int dayOffset * 86400000
       + int hour * 3600000 + int minute * 60000"

text \<open>The three nested \<open>for\<close> loops, as the list of candidates in the order they are visited.\<close>

definition candidate_slots :: "date \<Rightarrow> date list" where
  "candidate_slots baseTime =
     concat (map (\<lambda>dayOffset.
       concat (map (\<lambda>hour.
         map (\<lambda>minute. slotTime baseTime dayOffset hour minute) [0, 30])
       [9..<17]))
     [0..<3])"

text \<open>
  \<open>findNextAvailableSlots\<close> calls \<open>checkDoctorAvailability\<close> for every candidate, and
  \<open>checkDoctorAvailability\<close> calls \<open>findNextAvailableSlots\<close> whenever the slot it is asked
  about has a conflict. The recursion need not end, so the pair is modelled with fuel: the
  fuel bounds the nesting depth of \<open>checkDoctorAvailability\<close>, and \<open>None\<close> means that the
  call did not return within that depth.

  The clock is read once per candidate (\<open>new Date()\<close>). It is a function from the number
  of readings made so far to the time read; the counter is threaded through the calls.

  \<open>slot_loop\<close> is the body of the loops of \<open>findNextAvailableSlots\<close> over the remaining
  candidates, with the availability check as a parameter.
\<close>

fun slot_loop ::
  "(date \<Rightarrow> nat \<Rightarrow> (AvailabilityCheck \<times> nat) option) \<Rightarrow> (nat \<Rightarrow> date)
     \<Rightarrow> date list \<Rightarrow> date list \<Rightarrow> nat \<Rightarrow> (date list \<times> nat) option" where
  "slot_loop chk clock [] suggested k = Some (suggested, k)"
| "slot_loop chk clock (slot # rest) suggested k =
     (if slot \<le> clock k then slot_loop chk clock rest suggested (Suc k)
      else
        (case chk slot (Suc k) of
           None \<Rightarrow> None
         | Some (availability, k') \<Rightarrow>
             if available availability then
               (if length (suggested @ [slot]) \<ge> 3 then Some (suggested @ [slot], k')
                else slot_loop chk clock rest (suggested @ [slot]) k')
             else slot_loop chk clock rest suggested k'))"

primrec checkDoctorAvailability ::
  "nat \<Rightarrow> Appointment list \<Rightarrow> (nat \<Rightarrow> date) \<Rightarrow> object_id \<Rightarrow> int \<Rightarrow> object_id option
     \<Rightarrow> date \<Rightarrow> nat \<Rightarrow> (AvailabilityCheck \<times> nat) option" where
  "checkDoctorAvailability 0 appts clock doctorId dur excludeAppointmentId startTime k = None"
| "checkDoctorAvailability (Suc fuel) appts clock doctorId dur excludeAppointmentId startTime k =
     (let cs = findConflictingAppointments appts doctorId startTime dur;
          isAvailable = (length cs = 0)
      in if isAvailable
         then Some (\<lparr>available = isAvailable, conflicts = cs, suggestedTimes = []\<rparr>, k)
         else
           (case slot_loop (checkDoctorAvailability fuel appts clock doctorId dur None) clock
                   (candidate_slots startTime) [] k of
              None \<Rightarrow> None
            | Some (suggested, k') \<Rightarrow>
                Some (\<lparr>available = isAvailable, conflicts = cs, suggestedTimes = suggested\<rparr>,
                      k')))"

definition findNextAvailableSlots ::
  "nat \<Rightarrow> Appointment list \<Rightarrow> (nat \<Rightarrow> date) \<Rightarrow> object_id \<Rightarrow> date \<Rightarrow> int \<Rightarrow> nat
     \<Rightarrow> (date list \<times> nat) option" where
  "findNextAvailableSlots fuel appts clock doctorId preferredTime dur k =
     slot_loop (checkDoctorAvailability fuel appts clock doctorId dur None) clock
       (candidate_slots preferredTime) [] k"

text \<open>
  The availability endpoint of the controller (\<open>checkAvailability\<close>) runs the conflict
  query alone and proposes no alternatives.
\<close>

definition checkAvailability ::
  "Appointment list \<Rightarrow> object_id \<Rightarrow> date \<Rightarrow> int \<Rightarrow> bool \<times> Appointment list" where
  "checkAvailability appts doctorId startTime dur =
     (let conflictingAppointments = findConflictingAppointments appts doctorId startTime dur;
          isAvailable = (length conflictingAppointments = 0)
      in (isAvailable, if isAvailable then [] else conflictingAppointments))"


subsection \<open>Example calendars\<close>

text \<open>
  Times of day on the first day of the epoch: 09:00 is 32400000, 10:00 is 36000000,
  10:15 is 36900000, 11:00 is 39600000. Doctor 7 has one scheduled appointment.
\<close>

definition appt_10_to_1030 :: Appointment where
  "appt_10_to_1030 =
     \<lparr>a_id = 1, a_patient = 5, a_doctor = 7, scheduledTime = 36000000, duration = 30,
      a_status = AScheduled\<rparr>"

definition appt_10_to_11 :: Appointment where
  "appt_10_to_11 =
     \<lparr>a_id = 1, a_patient = 5, a_doctor = 7, scheduledTime = 36000000, duration = 60,
      a_status = AScheduled\<rparr>"

definition appt_1015_to_1045 :: Appointment where
  "appt_1015_to_1045 =
     \<lparr>a_id = 2, a_patient = 6, a_doctor = 7, scheduledTime = 36900000, duration = 30,
      a_status = AConfirmed\<rparr>"


section \<open>Queue entries (backend/src/models/Queue.ts)\<close>

datatype queue_status = Waiting | InProgress | Completed | Cancelled

record Queue =
  q_id :: object_id
  visit :: object_id
  patient :: object_id
  doctor :: "object_id option"
  position :: nat
  status :: queue_status
  priority :: priority_level
  checkInTime :: date
  calledTime :: "date option"
  consultationStartTime :: "date option"
  consultationEndTime :: "date option"
  estimatedWaitTime :: int
  actualWaitTime :: "int option"
  assignedRoom :: "string option"
  q_notes :: "string option"

text \<open>
  The schema stores \<open>priority\<close> as a \<open>String\<close> with the enum values below, and a sort on
  that field compares the stored strings. MongoDB compares strings byte by byte, a proper
  prefix before its extensions.
\<close>

fun priority_value :: "priority_level \<Rightarrow> string" where
  "priority_value High = ''high''"
| "priority_value Medium = ''medium''"
| "priority_value Low = ''low''"

fun string_less :: "string \<Rightarrow> string \<Rightarrow> bool" where
  "string_less [] [] = False"
| "string_less [] (y # ys) = True"
| "string_less (x # xs) [] = False"
| "string_less (x # xs) (y # ys) =
     ((of_char x :: nat) < of_char y \<or> (x = y \<and> string_less xs ys))"

text \<open>
  A sort specification is the relation "may stand before" that it induces on documents;
  \<open>mongo_sort\<close> orders a result by it (an insertion sort, inserting the documents from
  the last to the first). Documents that compare equal keep their natural order here;
  MongoDB leaves their order open, and the examples below have no such ties.
\<close>

fun insert_sorted :: "('a \<Rightarrow> 'a \<Rightarrow> bool) \<Rightarrow> 'a \<Rightarrow> 'a list \<Rightarrow> 'a list" where
  "insert_sorted le x [] = [x]"
| "insert_sorted le x (y # ys) = (if le x y then x # y # ys else y # insert_sorted le x ys)"

definition mongo_sort :: "('a \<Rightarrow> 'a \<Rightarrow> bool) \<Rightarrow> 'a list \<Rightarrow> 'a list" where
  "mongo_sort le xs = foldr (insert_sorted le) xs []"

text \<open>\<open>{ priority: -1, checkInTime: 1 }\<close>, the sort of \<open>recalculatePositions\<close>.\<close>

definition by_priority_checkIn :: "Queue \<Rightarrow> Queue \<Rightarrow> bool" where
  "by_priority_checkIn a b =
     (string_less (priority_value (priority b)) (priority_value (priority a))
      \<or> (priority_value (priority a) = priority_value (priority b)
         \<and> checkInTime a \<le> checkInTime b))"

text \<open>\<open>{ priority: -1, position: 1, checkInTime: 1 }\<close>, the sort of \<open>callNextPatient\<close>.\<close>

definition by_priority_position_checkIn :: "Queue \<Rightarrow> Queue \<Rightarrow> bool" where
  "by_priority_position_checkIn a b =
     (string_less (priority_value (priority b)) (priority_value (priority a))
      \<or> (priority_value (priority a) = priority_value (priority b)
         \<and> (position a < position b
            \<or> (position a = position b \<and> checkInTime a \<le> checkInTime b))))"


text \<open>
  \<open>findById\<close>, and \<open>findByIdAndUpdate\<close>: the first document with the id is replaced by
  its update.
\<close>

definition findById :: "Queue list \<Rightarrow> object_id \<Rightarrow> Queue option" where
  "findById qs i = find (\<lambda>e. q_id e = i) qs"

fun findByIdAndUpdate :: "object_id \<Rightarrow> (Queue \<Rightarrow> Queue) \<Rightarrow> Queue list \<Rightarrow> Queue list" where
  "findByIdAndUpdate i f [] = []"
| "findByIdAndUpdate i f (e # es) =
     (if q_id e = i then f e # es else e # findByIdAndUpdate i f es)"

definition waiting_entries :: "Queue list \<Rightarrow> Queue list" where
  "waiting_entries qs = filter (\<lambda>e. status e = Waiting) qs"


text \<open>
  \<open>recalculatePositions\<close>: the waiting entries, sorted, are given positions \<open>i + 1\<close> by one
  \<open>findByIdAndUpdate\<close> each; \<open>position_loop\<close> is the \<open>for\<close> loop from index \<open>i\<close> on.
\<close>

fun position_loop :: "nat \<Rightarrow> Queue list \<Rightarrow> Queue list \<Rightarrow> Queue list" where
  "position_loop i [] qs = qs"
| "position_loop i (w # ws) qs =
     position_loop (i + 1) ws (findByIdAndUpdate (q_id w) (\<lambda>e. e\<lparr>position := i + 1\<rparr>) qs)"

definition recalculatePositions :: "Queue list \<Rightarrow> Queue list" where
  "recalculatePositions qs =
     (let waitingPatients = mongo_sort by_priority_checkIn (waiting_entries qs)
      in position_loop 0 waitingPatients qs)"

section \<open>Queue service (backend/src/services/queue.service.ts)\<close>

datatype staff_role = Doctor | Nurse | Receptionist | Admin

record Staff =
  s_id :: object_id
  role :: staff_role
  isActive :: bool

datatype queue_error =
  QueueEntryNotFound
| InvalidStatusTransition queue_status queue_status
| DoctorNotFoundOrInactive
| NoPatientsWaiting
| VisitAlreadyInQueue
| ValidationError

record QueueStatusUpdate =
  u_status :: queue_status
  u_doctorId :: "object_id option"
  u_assignedRoom :: "string option"
  u_notes :: "string option"

text \<open>The table \<open>validTransitions\<close> of \<open>isValidStatusTransition\<close>.\<close>

fun validTransitions :: "queue_status \<Rightarrow> queue_status list" where
  "validTransitions Waiting = [InProgress, Cancelled]"
| "validTransitions InProgress = [Completed, Cancelled, Waiting]"
| "validTransitions Completed = []"
| "validTransitions Cancelled = [Waiting]"

definition isValidStatusTransition :: "queue_status \<Rightarrow> queue_status \<Rightarrow> bool" where
  "isValidStatusTransition fromStatus toStatus = (toStatus \<in> set (validTransitions fromStatus))"

text \<open>
  String fields of the schema are trimmed when they are set (\<open>trim: true\<close>), and an update
  with \<open>runValidators\<close> or a \<open>save\<close> checks \<open>maxlength\<close> on the fields it sets.
\<close>

definition is_space :: "char \<Rightarrow> bool" where
  "is_space c = ((of_char c :: nat) \<in> set [32, 9, 10, 11, 12, 13])"

definition trim :: "string \<Rightarrow> string" where
  "trim s = rev (dropWhile is_space (rev (dropWhile is_space s)))"

definition maxlength_ok :: "nat \<Rightarrow> string option \<Rightarrow> bool" where
  "maxlength_ok n v = (case v of None \<Rightarrow> True | Some s \<Rightarrow> length (trim s) \<le> n)"

definition set_string :: "string option \<Rightarrow> string option \<Rightarrow> string option" where
  "set_string new old = (case new of None \<Rightarrow> old | Some s \<Rightarrow> Some (trim s))"

text \<open>
  The update document of \<open>updateQueueStatus\<close>: the fields of \<open>updateData\<close> that are present,
  with the timing fields added. \<open>doctorId\<close> is not a path of the schema (the path is
  \<open>doctor\<close>), so the update does not store it.
\<close>

definition updateWithTiming :: "date \<Rightarrow> Queue \<Rightarrow> QueueStatusUpdate \<Rightarrow> Queue \<Rightarrow> Queue" where
  "updateWithTiming now queueEntry updateData e =
     (let e1 = e\<lparr>status := u_status updateData,
                 assignedRoom := set_string (u_assignedRoom updateData) (assignedRoom e),
                 q_notes := set_string (u_notes updateData) (q_notes e)\<rparr>;
          e2 = (if u_status updateData = InProgress \<and> status queueEntry \<noteq> InProgress
                then e1\<lparr>calledTime := Some now, consultationStartTime := Some now\<rparr>
                else e1);
          e3 = (if u_status updateData = Completed \<and> status queueEntry \<noteq> Completed
                then e2\<lparr>consultationEndTime := Some now\<rparr>
                else e2)
      in e3)"

definition updateQueueStatus ::
  "date \<Rightarrow> Queue list \<Rightarrow> object_id \<Rightarrow> QueueStatusUpdate \<Rightarrow> queue_error + (Queue \<times> Queue list)"
  where
  "updateQueueStatus now qs queueId updateData =
     (case findById qs queueId of
        None \<Rightarrow> Inl QueueEntryNotFound
      | Some queueEntry \<Rightarrow>
          if \<not> isValidStatusTransition (status queueEntry) (u_status updateData)
          then Inl (InvalidStatusTransition (status queueEntry) (u_status updateData))
          else if \<not> (maxlength_ok 20 (u_assignedRoom updateData)
                     \<and> maxlength_ok 1000 (u_notes updateData))
          then Inl ValidationError
          else
            (let updatedQueue = updateWithTiming now queueEntry updateData queueEntry;
                 qs1 = findByIdAndUpdate queueId (updateWithTiming now queueEntry updateData) qs;
                 qs2 = (if u_status updateData = Waiting then recalculatePositions qs1 else qs1)
             in Inr (updatedQueue, qs2)))"

text \<open>
  \<open>callNextPatient\<close>. The entry is changed in memory and saved; the value returned is that
  entry (read before the recalculation). A room is assigned only if one is given and it
  is not the empty string (\<open>if (assignedRoom)\<close>); saving validates the room that was set,
  the other stored fields being valid already.
\<close>

definition callNextPatient ::
  "date \<Rightarrow> Staff list \<Rightarrow> Queue list \<Rightarrow> object_id \<Rightarrow> string option
     \<Rightarrow> queue_error + (Queue \<times> Queue list)" where
  "callNextPatient now staff qs doctorId room =
     (case find (\<lambda>s. s_id s = doctorId \<and> role s = Doctor \<and> isActive s) staff of
        None \<Rightarrow> Inl DoctorNotFoundOrInactive
      | Some d \<Rightarrow>
          (case mongo_sort by_priority_position_checkIn (waiting_entries qs) of
             [] \<Rightarrow> Inl NoPatientsWaiting
           | nextPatient # _ \<Rightarrow>
               (let p1 = nextPatient\<lparr>status := InProgress, doctor := Some doctorId,
                                      calledTime := Some now,
                                      consultationStartTime := Some now\<rparr>;
                    room_set = (case room of
                                  None \<Rightarrow> None
                                | Some r \<Rightarrow> if r = [] then None else Some r);
                    p2 = p1\<lparr>assignedRoom := set_string room_set (assignedRoom p1)\<rparr>
                in if \<not> maxlength_ok 20 room_set then Inl ValidationError
                   else Inr (p2, recalculatePositions
                                   (findByIdAndUpdate (q_id nextPatient) (\<lambda>_. p2) qs)))))"



text \<open>\<open>removeFromQueue\<close>: the status is set with no check of the current one.\<close>

definition removeFromQueue ::
  "Queue list \<Rightarrow> object_id \<Rightarrow> string \<Rightarrow> queue_error + (Queue \<times> Queue list)" where
  "removeFromQueue qs queueId reason =
     (case findById qs queueId of
        None \<Rightarrow> Inl QueueEntryNotFound
      | Some e \<Rightarrow>
          (let upd = (\<lambda>e. e\<lparr>status := Cancelled, q_notes := Some (trim reason)\<rparr>)
           in Inr (upd e, recalculatePositions (findByIdAndUpdate queueId upd qs))))"







subsection \<open>Notions used to state the properties of the queue\<close>











subsection \<open>Example queues\<close>

text \<open>
  A waiting entry as \<open>addToQueue\<close> creates it, and an entry in consultation with doctor 9
  in room R1, called 100 ms after check-in.
\<close>

definition waiting_entry :: "object_id \<Rightarrow> priority_level \<Rightarrow> date \<Rightarrow> nat \<Rightarrow> Queue" where
  "waiting_entry i prio t pos =
     \<lparr>q_id = i, visit = 100 + i, patient = 200 + i, doctor = None, position = pos,
      status = Waiting, priority = prio, checkInTime = t, calledTime = None,
      consultationStartTime = None, consultationEndTime = None, estimatedWaitTime = 15,
      actualWaitTime = None, assignedRoom = None, q_notes = None\<rparr>"


definition completed_entry :: Queue where
  "completed_entry =
     \<lparr>q_id = 1, visit = 101, patient = 201, doctor = Some 9, position = 1,
      status = Completed, priority = Medium, checkInTime = 0, calledTime = Some 100,
      consultationStartTime = Some 100, consultationEndTime = Some 900,
      estimatedWaitTime = 15, actualWaitTime = None, assignedRoom = Some ''R1'',
      q_notes = None\<rparr>"

definition doctor_9 :: Staff where
  "doctor_9 = \<lparr>s_id = 9, role = Doctor, isActive = True\<rparr>"

definition status_only :: "queue_status \<Rightarrow> QueueStatusUpdate" where
  "status_only st =
     \<lparr>u_status = st, u_doctorId = None, u_assignedRoom = None, u_notes = None\<rparr>"

text \<open>Three check-ins within one minute, priorities high, low, medium in arrival order.\<close>

definition three_patients :: "Queue list" where
  "three_patients =
     [waiting_entry 1 High 0 1, waiting_entry 2 Low 20000 2, waiting_entry 3 Medium 40000 3]"








section \<open>Triage: bounds and monotonicity\<close>

lemma temperature_points_range: "0 \<le> temperature_points t \<and> temperature_points t \<le> 30"
  by (simp add: temperature_points_def)

lemma heartRate_points_range: "0 \<le> heartRate_points h \<and> heartRate_points h \<le> 25"
  by (simp add: heartRate_points_def)

lemma bloodPressure_points_range:
  "0 \<le> bloodPressure_points s d \<and> bloodPressure_points s d \<le> 40"
  by (simp add: bloodPressure_points_def Let_def)

lemma pain_points_range: "0 \<le> pain_points p \<and> pain_points p \<le> 20"
  by (simp add: pain_points_def)

lemma symptom_points_range: "0 \<le> symptom_points s \<and> symptom_points s \<le> 40"
  by (simp add: symptom_points_def Let_def)

lemma score_eq:
  "score (calculateTriageScore input) =
     temperature_points (temperature input) + heartRate_points (heartRate input)
     + bloodPressure_points (bloodPressureSystolic input) (bloodPressureDiastolic input)
     + pain_points (painLevel input) + symptom_points (symptoms input)"
  by (simp add: calculateTriageScore_def Let_def)

text \<open>
  C10. For every input (any real vitals, any symptom string) the score returned by
  \<open>calculateTriageScore\<close> is an integer between 0 and 155 = 30 + 25 + 40 + 20 + 40:
  each of the five rule blocks adds at most one point value, and the critical and
  serious symptom bonuses exclude each other.
\<close>

theorem triage_score_bounds:
  "0 \<le> score (calculateTriageScore input) \<and> score (calculateTriageScore input) \<le> 155"
  using temperature_points_range [of "temperature input"]
    heartRate_points_range [of "heartRate input"]
    bloodPressure_points_range [of "bloodPressureSystolic input" "bloodPressureDiastolic input"]
    pain_points_range [of "painLevel input"]
    symptom_points_range [of "symptoms input"]
  unfolding score_eq by linarith

subsection \<open>Monotonicity\<close>

lemma temperature_points_mono:
  "temperature_same_side t t' \<Longrightarrow> temperature_deviation t < temperature_deviation t'
   \<Longrightarrow> temperature_points t \<le> temperature_points t'"
  by (auto simp: temperature_same_side_def temperature_deviation_def temperature_points_def)

lemma heartRate_points_mono:
  "heartRate_same_side h h' \<Longrightarrow> heartRate_deviation h < heartRate_deviation h'
   \<Longrightarrow> heartRate_points h \<le> heartRate_points h'"
  by (auto simp: heartRate_same_side_def heartRate_deviation_def heartRate_points_def
      split: if_splits)

lemma bloodPressure_points_mono_systolic:
  "systolic_deviation s < systolic_deviation s'
   \<Longrightarrow> bloodPressure_points s d \<le> bloodPressure_points s' d"
  by (auto simp: systolic_deviation_def bloodPressure_points_def Let_def)

lemma bloodPressure_points_mono_diastolic:
  "diastolic_deviation d < diastolic_deviation d'
   \<Longrightarrow> bloodPressure_points s d \<le> bloodPressure_points s d'"
  by (auto simp: diastolic_deviation_def bloodPressure_points_def Let_def)

lemma pain_points_mono:
  "pain_same_side p p' \<Longrightarrow> pain_deviation p < pain_deviation p'
   \<Longrightarrow> pain_points p \<le> pain_points p'"
  by (auto simp: pain_same_side_def pain_deviation_def pain_points_def)

lemma symptom_points_routine: "symptom_points ''routine check-up'' = 0"
  by (simp add: symptom_points_def Let_def toLowerCase_def lower_char_def
      critical_keywords_def serious_keywords_def)

text \<open>
  C9, as stated, fails: the temperature bands are not symmetric about 98.6. Going from
  95 to 102.5 raises the deviation from 98.6 (3.6 to 3.9) with every other input fixed,
  and the score falls from 30 to 20.
\<close>

theorem triage_monotone_counterexample:
  "temperature_deviation 95 < temperature_deviation 102.5
   \<and> score (calculateTriageScore (normal_input\<lparr>temperature := 95\<rparr>)) = 30
   \<and> score (calculateTriageScore (normal_input\<lparr>temperature := 102.5\<rparr>)) = 20"
  by (simp add: temperature_deviation_def score_eq normal_input_def temperature_points_def
      heartRate_points_def bloodPressure_points_def pain_points_def symptom_points_routine)

text \<open>
  C9, amended. Increasing one vital's deviation from normal while it stays on the same
  side of normal (temperature on one side of 98.6, heart rate not crossing from below 60
  to above 100 or back, pain on one side of 0), or increasing the absolute systolic or
  diastolic delta, with every other input fixed, never decreases the score.
\<close>

theorem triage_monotone_same_side:
  assumes "single_vital_worsened a b"
  shows "score (calculateTriageScore a) \<le> score (calculateTriageScore b)"
proof -
  consider
    (temp) "b = a\<lparr>temperature := temperature b\<rparr>"
      "temperature_same_side (temperature a) (temperature b)"
      "temperature_deviation (temperature a) < temperature_deviation (temperature b)"
  | (hr) "b = a\<lparr>heartRate := heartRate b\<rparr>"
      "heartRate_same_side (heartRate a) (heartRate b)"
      "heartRate_deviation (heartRate a) < heartRate_deviation (heartRate b)"
  | (sys) "b = a\<lparr>bloodPressureSystolic := bloodPressureSystolic b\<rparr>"
      "systolic_deviation (bloodPressureSystolic a)
         < systolic_deviation (bloodPressureSystolic b)"
  | (dia) "b = a\<lparr>bloodPressureDiastolic := bloodPressureDiastolic b\<rparr>"
      "diastolic_deviation (bloodPressureDiastolic a)
         < diastolic_deviation (bloodPressureDiastolic b)"
  | (pain) "b = a\<lparr>painLevel := painLevel b\<rparr>"
      "pain_same_side (painLevel a) (painLevel b)"
      "pain_deviation (painLevel a) < pain_deviation (painLevel b)"
    using assms unfolding single_vital_worsened_def by blast
  then show ?thesis
  proof cases
    case temp
    have "score (calculateTriageScore a)
            \<le> score (calculateTriageScore (a\<lparr>temperature := temperature b\<rparr>))"
      using temperature_points_mono [OF temp(2) temp(3)] by (simp add: score_eq)
    with temp(1) show ?thesis by simp
  next
    case hr
    have "score (calculateTriageScore a)
            \<le> score (calculateTriageScore (a\<lparr>heartRate := heartRate b\<rparr>))"
      using heartRate_points_mono [OF hr(2) hr(3)] by (simp add: score_eq)
    with hr(1) show ?thesis by simp
  next
    case sys
    have "score (calculateTriageScore a)
            \<le> score (calculateTriageScore
                       (a\<lparr>bloodPressureSystolic := bloodPressureSystolic b\<rparr>))"
      using bloodPressure_points_mono_systolic [OF sys(2)] by (simp add: score_eq)
    with sys(1) show ?thesis by simp
  next
    case dia
    have "score (calculateTriageScore a)
            \<le> score (calculateTriageScore
                       (a\<lparr>bloodPressureDiastolic := bloodPressureDiastolic b\<rparr>))"
      using bloodPressure_points_mono_diastolic [OF dia(2)] by (simp add: score_eq)
    with dia(1) show ?thesis by simp
  next
    case pain
    have "score (calculateTriageScore a)
            \<le> score (calculateTriageScore (a\<lparr>painLevel := painLevel b\<rparr>))"
      using pain_points_mono [OF pain(2) pain(3)] by (simp add: score_eq)
    with pain(1) show ?thesis by simp
  qed
qed

theorem triage_monotone_same_side_witness:
  "single_vital_worsened (normal_input\<lparr>temperature := 100\<rparr>)
     (normal_input\<lparr>temperature := 103\<rparr>)
   \<and> score (calculateTriageScore (normal_input\<lparr>temperature := 100\<rparr>))
       \<le> score (calculateTriageScore (normal_input\<lparr>temperature := 103\<rparr>))"
proof -
  have h: "single_vital_worsened (normal_input\<lparr>temperature := 100\<rparr>)
             (normal_input\<lparr>temperature := 103\<rparr>)"
    by (simp add: single_vital_worsened_def normal_input_def temperature_same_side_def
        temperature_deviation_def)
  show ?thesis using h triage_monotone_same_side [OF h] by simp
qed


section \<open>Appointments: the conflict query\<close>

text \<open>
  What the query finds, for positive durations: the overlapping active appointments of
  the doctor, except those that start before the requested start and end at or after the
  requested end.
\<close>

lemma conflict_query_char:
  assumes "0 < dur" "0 < duration a"
  shows "conflict_query doctorId start dur a \<longleftrightarrow>
           (a_doctor a = doctorId \<and> active_status (a_status a)
            \<and> spec_overlap start dur (scheduledTime a) (duration a)
            \<and> \<not> (scheduledTime a < start
                  \<and> start + dur * 60000 \<le> scheduledTime a + duration a * 60000))"
  using assms by (auto simp: conflict_query_def spec_overlap_def Let_def)

lemma conflict_query_sound:
  assumes "0 < duration a" "conflict_query doctorId start dur a"
  shows "spec_overlap start dur (scheduledTime a) (duration a)"
  using assms by (auto simp: conflict_query_def spec_overlap_def Let_def)

lemma scenario_1015_conflict:
  "checkAvailability [appt_10_to_1030] 7 36900000 30 = (False, [appt_10_to_1030])"
  by (simp add: checkAvailability_def findConflictingAppointments_def conflict_query_def
      appt_10_to_1030_def active_status_def Let_def)

text \<open>
  C3 at the failing input: doctor 7 has a scheduled appointment 10:00 to 11:00, and the
  request is 10:15 for 30 minutes. The two intervals overlap in the sense of the
  specification (the stored one contains the requested one), and the query returns
  nothing.
\<close>

theorem findConflictingAppointments_misses_containing:
  "spec_conflicts [appt_10_to_11] 7 36900000 30 = [appt_10_to_11]
   \<and> findConflictingAppointments [appt_10_to_11] 7 36900000 30 = []"
  by (simp add: spec_conflicts_def spec_overlap_def findConflictingAppointments_def
      conflict_query_def appt_10_to_11_def active_status_def Let_def)

text \<open>
  C4 at the failing input: with the appointments 10:00 to 11:00 (id 1) and 10:15 to 10:45
  (id 2) of doctor 7, the check on the first one's time returns the second, the check on
  the second one's time does not return the first, and the check on the first one's own
  time returns the first itself, also through \<open>checkDoctorAvailability\<close> with its id as
  \<open>excludeAppointmentId\<close> (the clock stands after every candidate slot there, so that the
  slot search returns).
\<close>

theorem conflict_check_asymmetric_and_self:
  "appt_1015_to_1045 \<in> set (findConflictingAppointments [appt_10_to_11, appt_1015_to_1045] 7
                                (scheduledTime appt_10_to_11) (duration appt_10_to_11))
   \<and> appt_10_to_11 \<notin> set (findConflictingAppointments [appt_10_to_11, appt_1015_to_1045] 7
                                (scheduledTime appt_1015_to_1045) (duration appt_1015_to_1045))
   \<and> appt_10_to_11 \<in> set (findConflictingAppointments [appt_10_to_11, appt_1015_to_1045] 7
                                (scheduledTime appt_10_to_11) (duration appt_10_to_11))
   \<and> map_option (conflicts \<circ> fst)
         (checkDoctorAvailability 1 [appt_10_to_11, appt_1015_to_1045] (\<lambda>k. 1000000000) 7
            (duration appt_10_to_11) (Some (a_id appt_10_to_11))
            (scheduledTime appt_10_to_11) 0)
       = Some [appt_10_to_11, appt_1015_to_1045]"
proof -
  have slots: "candidate_slots 36000000 =
     [32400000, 34200000, 36000000, 37800000, 39600000, 41400000, 43200000,
      45000000, 46800000, 48600000, 50400000, 52200000, 54000000, 55800000,
      57600000, 59400000, 118800000, 120600000, 122400000, 124200000, 126000000,
      127800000, 129600000, 131400000, 133200000, 135000000, 136800000,
      138600000, 140400000, 142200000, 144000000, 145800000, 205200000,
      207000000, 208800000, 210600000, 212400000, 214200000, 216000000,
      217800000, 219600000, 221400000, 223200000, 225000000, 226800000,
      228600000, 230400000, 232200000]"
    by code_simp
  have cs: "findConflictingAppointments [appt_10_to_11, appt_1015_to_1045] 7 36000000 60
              = [appt_10_to_11, appt_1015_to_1045]"
    by (simp add: findConflictingAppointments_def conflict_query_def appt_10_to_11_def
        appt_1015_to_1045_def active_status_def Let_def)
  have "findConflictingAppointments [appt_10_to_11, appt_1015_to_1045] 7 36900000 30
              = [appt_1015_to_1045]"
    by (simp add: findConflictingAppointments_def conflict_query_def appt_10_to_11_def
        appt_1015_to_1045_def active_status_def Let_def)
  moreover have "appt_10_to_11 \<noteq> appt_1015_to_1045"
    by (simp add: appt_10_to_11_def appt_1015_to_1045_def)
  moreover have "scheduledTime appt_10_to_11 = 36000000" "duration appt_10_to_11 = 60"
    "scheduledTime appt_1015_to_1045 = 36900000" "duration appt_1015_to_1045 = 30"
    by (simp_all add: appt_10_to_11_def appt_1015_to_1045_def)
  ultimately show ?thesis
    by (simp add: cs slots Let_def)
qed


section \<open>Appointments: the search for alternative slots\<close>

lemma checkDoctorAvailability_free:
  assumes "findConflictingAppointments appts doctorId startTime dur = []"
  shows "checkDoctorAvailability (Suc fuel) appts clock doctorId dur ex startTime k
           = Some (\<lparr>available = True, conflicts = [], suggestedTimes = []\<rparr>, k)"
  using assms by simp

text \<open>When the search returns, it returns at most three slots.\<close>

lemma slot_loop_length:
  assumes "slot_loop chk clock cs suggested k = Some (res, k')" "length suggested < 3"
  shows "length res \<le> 3"
  using assms
proof (induction cs arbitrary: suggested k)
  case Nil
  then show ?case by simp
next
  case (Cons slot rest)
  show ?case
  proof (cases "slot \<le> clock k")
    case True
    with Cons.prems have "slot_loop chk clock rest suggested (Suc k) = Some (res, k')"
      by simp
    from Cons.IH [OF this Cons.prems(2)] show ?thesis .
  next
    case False
    with Cons.prems obtain av k1 where chk: "chk slot (Suc k) = Some (av, k1)"
      by (cases "chk slot (Suc k)") auto
    show ?thesis
    proof (cases "available av")
      case av: True
      show ?thesis
      proof (cases "length (suggested @ [slot]) \<ge> 3")
        case True
        with Cons.prems(1) False chk av have "res = suggested @ [slot]" by simp
        with Cons.prems(2) show ?thesis by simp
      next
        case short: False
        with Cons.prems(1) False chk av
        have "slot_loop chk clock rest (suggested @ [slot]) k1 = Some (res, k')" by simp
        moreover from short have "length (suggested @ [slot]) < 3" by simp
        ultimately show ?thesis using Cons.IH by blast
      qed
    next
      case nav: False
      with Cons.prems(1) False chk
      have "slot_loop chk clock rest suggested k1 = Some (res, k')" by simp
      from Cons.IH [OF this Cons.prems(2)] show ?thesis .
    qed
  qed
qed

text \<open>A check that does not return stops the search.\<close>

lemma slot_loop_stuck:
  assumes "\<not> slot \<le> clock k" "chk slot (Suc k) = None"
  shows "slot_loop chk clock (slot # rest) suggested k = None"
  using assms by simp

lemma candidate_slots_10:
  "candidate_slots 36000000 =
     [32400000, 34200000, 36000000, 37800000, 39600000, 41400000, 43200000,
      45000000, 46800000, 48600000, 50400000, 52200000, 54000000, 55800000,
      57600000, 59400000, 118800000, 120600000, 122400000, 124200000, 126000000,
      127800000, 129600000, 131400000, 133200000, 135000000, 136800000,
      138600000, 140400000, 142200000, 144000000, 145800000, 205200000,
      207000000, 208800000, 210600000, 212400000, 214200000, 216000000,
      217800000, 219600000, 221400000, 223200000, 225000000, 226800000,
      228600000, 230400000, 232200000]"
  by code_simp

lemma candidate_slots_same_day: "candidate_slots 36900000 = candidate_slots 36000000"
  by (simp add: candidate_slots_def slotTime_def)

lemma conflicts_0900: "findConflictingAppointments [appt_10_to_1030] 7 32400000 30 = []"
  by (simp add: findConflictingAppointments_def conflict_query_def appt_10_to_1030_def
      active_status_def Let_def)

lemma conflicts_0930: "findConflictingAppointments [appt_10_to_1030] 7 34200000 30 = []"
  by (simp add: findConflictingAppointments_def conflict_query_def appt_10_to_1030_def
      active_status_def Let_def)

lemma conflicts_1000:
  "findConflictingAppointments [appt_10_to_1030] 7 36000000 30 = [appt_10_to_1030]"
  by (simp add: findConflictingAppointments_def conflict_query_def appt_10_to_1030_def
      active_status_def Let_def)

lemma conflicts_1015:
  "findConflictingAppointments [appt_10_to_1030] 7 36900000 30 = [appt_10_to_1030]"
  by (simp add: findConflictingAppointments_def conflict_query_def appt_10_to_1030_def
      active_status_def Let_def)

lemma slot_loop_past_free_slot:
  assumes free: "\<And>j. chk s j = Some (\<lparr>available = True, conflicts = [], suggestedTimes = []\<rparr>, j)"
    and short: "length suggested < 2"
    and rest: "\<And>sg j. length sg \<le> Suc (length suggested)
                 \<Longrightarrow> slot_loop chk clock rest sg j = None"
  shows "slot_loop chk clock (s # rest) suggested k = None"
proof (cases "s \<le> clock k")
  case True
  with rest [of suggested "Suc k"] show ?thesis by simp
next
  case False
  with free [of "Suc k"] short rest [of "suggested @ [s]" "Suc k"] show ?thesis by simp
qed

lemma slot_loop_past_dead_check:
  assumes "\<And>j. chk s j = None" "\<And>j. slot_loop chk clock rest suggested j = None"
  shows "slot_loop chk clock (s # rest) suggested k = None"
  using assms by simp

text \<open>
  The search from any time of that day, while the clock stands before 10:00: the slots
  09:00 and 09:30 are free, and each is collected or (if already past) skipped; at 10:00
  the availability check is asked again about a slot with a conflict. If that check does
  not return, the search does not.
\<close>

lemma slot_loop_reaches_1000:
  assumes clk: "\<And>j. clock j < 36000000"
    and rec: "\<And>j. checkDoctorAvailability fuel [appt_10_to_1030] clock 7 30 None 36000000 j
                = None"
  shows "slot_loop (checkDoctorAvailability fuel [appt_10_to_1030] clock 7 30 None) clock
           (candidate_slots 36000000) [] k = None"
proof -
  let ?chk = "checkDoctorAvailability fuel [appt_10_to_1030] clock 7 30 None"
  obtain rest where cs: "candidate_slots 36000000 = 32400000 # 34200000 # 36000000 # rest"
    by (simp add: candidate_slots_10)
  have at_1000: "slot_loop ?chk clock (36000000 # rest) sg j = None" for sg j
  proof (rule slot_loop_stuck [where chk = ?chk and clock = clock and k = j])
    show "\<not> 36000000 \<le> clock j" using clk [of j] by simp
    show "?chk 36000000 (Suc j) = None" by (rule rec)
  qed
  show ?thesis
  proof (cases fuel)
    case 0
    then have dead: "?chk s j = None" for s j by simp
    have "slot_loop ?chk clock (34200000 # 36000000 # rest) sg j = None" for sg j
      by (rule slot_loop_past_dead_check [where chk = ?chk, OF dead at_1000])
    then have "slot_loop ?chk clock (32400000 # 34200000 # 36000000 # rest) [] k = None"
      by (rule slot_loop_past_dead_check [where chk = ?chk, OF dead])
    then show ?thesis by (simp only: cs)
  next
    case (Suc m)
    have f1: "?chk 32400000 j
                = Some (\<lparr>available = True, conflicts = [], suggestedTimes = []\<rparr>, j)" for j
      unfolding Suc by (rule checkDoctorAvailability_free [OF conflicts_0900])
    have f2: "?chk 34200000 j
                = Some (\<lparr>available = True, conflicts = [], suggestedTimes = []\<rparr>, j)" for j
      unfolding Suc by (rule checkDoctorAvailability_free [OF conflicts_0930])
    have at_0930: "slot_loop ?chk clock (34200000 # 36000000 # rest) sg j = None"
      if "length sg \<le> Suc 0" for sg j
    proof (rule slot_loop_past_free_slot [where chk = ?chk, OF f2])
      show "length sg < 2" using that by simp
      show "slot_loop ?chk clock (36000000 # rest) sg' j' = None" for sg' j'
        by (rule at_1000)
    qed
    have "slot_loop ?chk clock (32400000 # 34200000 # 36000000 # rest) [] k = None"
    proof (rule slot_loop_past_free_slot [where chk = ?chk, OF f1])
      show "length ([] :: date list) < 2" by simp
      show "slot_loop ?chk clock (34200000 # 36000000 # rest) sg j = None"
        if "length sg \<le> Suc (length ([] :: date list))" for sg j
        using that by (intro at_0930) simp
    qed
    then show ?thesis by (simp only: cs)
  qed
qed

lemma check_1000_never_returns:
  assumes clk: "\<And>j. clock j < 36000000"
  shows "checkDoctorAvailability fuel [appt_10_to_1030] clock 7 30 ex 36000000 k = None"
proof (induction fuel arbitrary: ex k)
  case 0
  show ?case by simp
next
  case (Suc fuel)
  have "slot_loop (checkDoctorAvailability fuel [appt_10_to_1030] clock 7 30 None) clock
          (candidate_slots 36000000) [] k = None"
    by (rule slot_loop_reaches_1000 [OF clk Suc.IH])
  then show ?case
    by (simp add: conflicts_1000 Let_def)
qed

text \<open>
  C8 at the failing input: doctor 7 has a scheduled appointment 10:00 to 10:30, and
  availability is asked for 10:15 for 30 minutes while the clock stands before 10:00 of
  that day. The slot 10:00 has a conflict, so the search asks \<open>checkDoctorAvailability\<close>
  about it, which starts the same search again: for no nesting depth does the call return.
\<close>

theorem checkDoctorAvailability_never_returns:
  assumes "\<forall>j. clock j < 36000000"
  shows "checkDoctorAvailability fuel [appt_10_to_1030] clock 7 30 None 36900000 k = None"
proof (cases fuel)
  case 0
  show ?thesis unfolding 0 by simp
next
  case (Suc m)
  have clk: "\<And>j. clock j < 36000000" using assms by simp
  have "slot_loop (checkDoctorAvailability m [appt_10_to_1030] clock 7 30 None) clock
          (candidate_slots 36000000) [] k = None"
    by (rule slot_loop_reaches_1000 [OF clk check_1000_never_returns [OF clk]])
  then show ?thesis
    unfolding Suc by (simp add: conflicts_1015 candidate_slots_same_day Let_def)
qed

theorem checkDoctorAvailability_never_returns_witness:
  "(\<forall>j. (\<lambda>j. 0 :: date) j < 36000000)
   \<and> checkDoctorAvailability 1000 [appt_10_to_1030] (\<lambda>j. 0) 7 30 None 36900000 0 = None"
proof -
  have h: "\<forall>j. (\<lambda>j. 0 :: date) j < 36000000" by simp
  show ?thesis
    using h checkDoctorAvailability_never_returns [OF h, of 1000 0] by blast
qed

text \<open>With a free calendar the same search returns the first three slots after the clock.\<close>

lemma findNextAvailableSlots_free_calendar:
  "findNextAvailableSlots (Suc fuel) [] (\<lambda>j. 0) 7 36900000 30 0
     = Some ([32400000, 34200000, 36000000], 3)"
  by (simp add: findNextAvailableSlots_def candidate_slots_same_day candidate_slots_10
      findConflictingAppointments_def)


section \<open>Queue: the order that the sorts produce\<close>

text \<open>The stored priority strings compare as \<open>high < low < medium\<close>.\<close>

lemma string_less_priority_values:
  "string_less ''high'' ''low''" "string_less ''low'' ''medium''"
  "string_less ''high'' ''medium''"
  "\<not> string_less ''low'' ''high''" "\<not> string_less ''medium'' ''low''"
  "\<not> string_less ''medium'' ''high''"
  "\<not> string_less ''high'' ''high''" "\<not> string_less ''low'' ''low''"
  "\<not> string_less ''medium'' ''medium''"
  by simp_all

text \<open>
  C1 at the failing input: three waiting patients who checked in within one minute with
  priorities high, low, medium. Recalculation gives the medium patient position 1, the low
  patient position 2 and the high patient position 3.
\<close>

theorem recalculatePositions_three_patients:
  "map (\<lambda>e. (q_id e, priority e, position e)) (recalculatePositions three_patients)
     = [(1, High, 3), (2, Low, 2), (3, Medium, 1)]"
  by (simp add: recalculatePositions_def three_patients_def waiting_entry_def
      waiting_entries_def mongo_sort_def by_priority_checkIn_def Let_def)

text \<open>
  C5 at the failing input: a high-priority patient at position 1 and a medium-priority
  patient at position 2 are waiting. \<open>callNextPatient\<close> calls the medium-priority patient.
\<close>

theorem callNextPatient_prefers_medium:
  "map_sum id (\<lambda>(called, qs). (q_id called, priority called, status called,
        map (\<lambda>e. (q_id e, status e, position e)) qs))
     (callNextPatient 50000 [doctor_9]
        [waiting_entry 1 High 0 1, waiting_entry 2 Medium 20000 2] 9 None)
   = Inr (2, Medium, InProgress, [(1, Waiting, 1), (2, InProgress, 2)])"
  by (simp add: callNextPatient_def doctor_9_def waiting_entry_def waiting_entries_def
      mongo_sort_def by_priority_position_checkIn_def by_priority_checkIn_def
      recalculatePositions_def maxlength_ok_def set_string_def Let_def)

lemma callNextPatient_no_doctor:
  assumes "find (\<lambda>s. s_id s = doctorId \<and> role s = Doctor \<and> isActive s) staff = None"
  shows "callNextPatient now staff qs doctorId room = Inl DoctorNotFoundOrInactive"
  using assms by (simp add: callNextPatient_def)

lemma mongo_sort_Nil_iff: "mongo_sort le xs = [] \<longleftrightarrow> xs = []"
proof -
  have "insert_sorted le x ys \<noteq> []" for x ys by (cases ys) simp_all
  then show ?thesis by (cases xs) (simp_all add: mongo_sort_def)
qed

lemma callNextPatient_empty_queue:
  assumes "find (\<lambda>s. s_id s = doctorId \<and> role s = Doctor \<and> isActive s) staff = Some d"
    "waiting_entries qs = []"
  shows "callNextPatient now staff qs doctorId room = Inl NoPatientsWaiting"
  using assms by (simp add: callNextPatient_def mongo_sort_def)

section \<open>Queue: status transitions\<close>

text \<open>\<open>updateQueueStatus\<close> succeeds only along the table, and rejects everything else.\<close>

lemma updateQueueStatus_valid:
  assumes "updateQueueStatus now qs i u = Inr (e', qs')"
  obtains e where "findById qs i = Some e" "isValidStatusTransition (status e) (u_status u)"
    "status e' = u_status u"
  using assms
  by (auto simp: updateQueueStatus_def updateWithTiming_def Let_def
      split: option.splits if_splits)

lemma updateQueueStatus_invalid:
  assumes "findById qs i = Some e" "\<not> isValidStatusTransition (status e) (u_status u)"
  shows "updateQueueStatus now qs i u = Inl (InvalidStatusTransition (status e) (u_status u))"
  using assms by (simp add: updateQueueStatus_def)

lemma isValidStatusTransition_table:
  "isValidStatusTransition a b \<longleftrightarrow>
     (a, b) \<in> {(Waiting, InProgress), (Waiting, Cancelled), (InProgress, Completed),
               (InProgress, Cancelled), (InProgress, Waiting), (Cancelled, Waiting)}"
  by (cases a; cases b) (simp_all add: isValidStatusTransition_def)

text \<open>
  C6 at the failing input: the queue holds one completed entry, and \<open>removeFromQueue\<close> is
  called with its id. The call succeeds and the entry is stored as cancelled, where
  \<open>updateQueueStatus\<close> with target cancelled rejects the same change.
\<close>

theorem removeFromQueue_cancels_completed:
  "map_sum id (\<lambda>(removed, qs). (status removed, map status qs))
     (removeFromQueue [completed_entry] 1 ''left'') = Inr (Cancelled, [Cancelled])
   \<and> updateQueueStatus 1000 [completed_entry] 1 (status_only Cancelled)
       = Inl (InvalidStatusTransition Completed Cancelled)"
  by (simp add: removeFromQueue_def updateQueueStatus_def findById_def completed_entry_def
      status_only_def isValidStatusTransition_def recalculatePositions_def
      waiting_entries_def mongo_sort_def Let_def)


section \<open>Queue: position recalculation\<close>

subsection \<open>The sort\<close>







subsection \<open>The order of the stored priority strings\<close>







subsection \<open>The loop\<close>











subsection \<open>What recalculation establishes\<close>









section \<open>Queue: positions after the operations\<close>









text \<open>
  \<open>updateQueueStatus\<close> with a target other than waiting leaves every position as it is.
\<close>

lemma updateQueueStatus_positions_unchanged:
  assumes "updateQueueStatus now qs i u = Inr (e', qs')" "u_status u \<noteq> Waiting"
  shows "map position qs' = map position qs"
proof -
  from assms obtain e where "qs' = findByIdAndUpdate i (updateWithTiming now e u) qs"
    by (auto simp: updateQueueStatus_def Let_def split: option.splits if_splits)
  moreover have "map position (findByIdAndUpdate i f qs) = map position qs"
    if "\<And>x. position (f x) = position x" for f
    using that by (induction qs) simp_all
  ultimately show ?thesis by (simp add: updateWithTiming_def Let_def)
qed








subsection \<open>One operation\<close>





subsection \<open>A run of operations\<close>









section \<open>Queue: what a status update writes\<close>





end
